theory Spec2Isabelle
  imports Main "HOL-Library.Sublist"
begin

section \<open>Popup script (chrome-extension/popup.js)\<close>

subsection \<open>Constants\<close>

definition CDN_BASE :: string where
  "CDN_BASE = ''https://d3tha58ojcqcpf.cloudfront.net/prod/episodes''"

definition DIGGDAILY_URL :: string where
  "DIGGDAILY_URL = ''https://digg.com/diggdaily''"

definition CACHE_KEY :: string where
  "CACHE_KEY = ''diggDailyCache''"

definition CACHE_DURATION_MS :: int where
  "CACHE_DURATION_MS = 30 * 60 * 1000"

subsection \<open>Data\<close>

text \<open>One element of \<^verbatim>\<open>data.episodes\<close> in the API response, with the fields the
  popup reads.\<close>

record raw_episode =
  episode_id :: string
  file_name :: string
  published_date :: string
  published_state :: string
  episode_number :: int

text \<open>The object literal built at lines 76-83 and kept in the cache.\<close>

record episode =
  title :: string
  date :: string
  episodeNumber :: int
  diggUrl :: string
  audioUrl :: string
  fetchedAt :: int

text \<open>What can be thrown while the popup resolves an episode: \<^verbatim>\<open>new Error(msg)\<close>
  raised by popup.js itself, a rejected \<^verbatim>\<open>fetch\<close>, a rejected
  \<^verbatim>\<open>response.json()\<close>, a rejected \<^verbatim>\<open>chrome.storage.local\<close> call, and the
  TypeError of a property read on \<^verbatim>\<open>undefined\<close>.\<close>

datatype error =
  Error string
| FetchRejected
| JsonRejected
| StorageRejected
| TypeError

text \<open>The body of a response: \<^verbatim>\<open>response.json()\<close> either rejects (\<open>None\<close>) or
  yields an object whose \<^verbatim>\<open>episodes\<close> field is missing (\<open>None\<close>) or an array
  of raw episodes.\<close>

record http_response =
  status :: nat
  json :: "raw_episode list option option"

definition ok :: "http_response \<Rightarrow> bool" where
  "ok r = (200 \<le> status r \<and> status r \<le> 299)"

text \<open>Everything outside popup.js that one resolution reads: the outcome of each
  \<^verbatim>\<open>chrome.storage.local\<close> call, the two readings of \<^verbatim>\<open>Date.now()\<close> (line 99 and
  line 82), the outcome of \<^verbatim>\<open>fetch(API_URL)\<close> (\<open>None\<close>: the promise rejects), and the
  runtime's \<^verbatim>\<open>Date\<close>: the time value of \<^verbatim>\<open>new Date(s)\<close> (\<open>None\<close>: Invalid Date,
  whose time value is NaN), and the local-time month name (en-US, long), day of month
  and full year of a time value.\<close>

record env =
  get_rejects :: bool
  set_rejects :: bool
  remove_rejects :: bool
  now_read :: int
  now_stamp :: int
  response :: "http_response option"
  date_value :: "string \<Rightarrow> int option"
  month_long :: "int \<Rightarrow> string"
  getDate :: "int \<Rightarrow> int"
  getFullYear :: "int \<Rightarrow> int"

text \<open>The state one resolution changes: the contents of \<^verbatim>\<open>chrome.storage.local\<close> and
  the number of calls of \<^verbatim>\<open>fetch\<close> issued so far.\<close>

record world =
  storage :: "string \<rightharpoonup> episode"
  net_calls :: nat

subsection \<open>Decimal rendering of numbers in template literals\<close>

definition digit_char :: "nat \<Rightarrow> char" where
  "digit_char d = char_of (48 + d)"

fun show_nat :: "nat \<Rightarrow> string" where
  "show_nat n = (if n < 10 then [digit_char n] else show_nat (n div 10) @ [digit_char (n mod 10)])"

declare show_nat.simps [simp del]

definition show_int :: "int \<Rightarrow> string" where
  "show_int i = (if i < 0 then CHR ''-'' # show_nat (nat (- i)) else show_nat (nat i))"

subsection \<open>createTitle\<close>

text \<open>Lines 30-36. For an Invalid Date, \<^verbatim>\<open>toLocaleDateString\<close> gives
  \<^verbatim>\<open>Invalid Date\<close> and \<^verbatim>\<open>getDate\<close>, \<^verbatim>\<open>getFullYear\<close> give NaN.\<close>

definition createTitle :: "env \<Rightarrow> string \<Rightarrow> int \<Rightarrow> string" where
  "createTitle env publishedDate epNumber =
     (let (month, day, year) =
        (case date_value env publishedDate of
           None \<Rightarrow> (''Invalid Date'', ''NaN'', ''NaN'')
         | Some t \<Rightarrow> (month_long env t, show_int (getDate env t), show_int (getFullYear env t)))
      in ''Digg Daily #'' @ show_int epNumber @ '' - '' @ month @ '' '' @ day @ '', '' @ year)"

subsection \<open>The storage wrappers\<close>

text \<open>\<^verbatim>\<open>chrome.storage.local.get(key)\<close>: rejects, or resolves to an object holding the
  key when it is stored.\<close>

definition storage_get :: "env \<Rightarrow> string \<Rightarrow> world \<Rightarrow> error + (string \<rightharpoonup> episode)" where
  "storage_get env key w =
     (if get_rejects env then Inl StorageRejected else Inr (storage w |` {key}))"

text \<open>\<^verbatim>\<open>chrome.storage.local.set({[key]: v})\<close>: rejects and stores nothing, or stores.\<close>

definition storage_set :: "env \<Rightarrow> string \<Rightarrow> episode \<Rightarrow> world \<Rightarrow> (error + unit) \<times> world" where
  "storage_set env key v w =
     (if set_rejects env then (Inl StorageRejected, w)
      else (Inr (), w\<lparr>storage := (storage w)(key \<mapsto> v)\<rparr>))"


text \<open>Lines 94-106. The \<^verbatim>\<open>catch\<close> only warns, so a rejected read falls through to
  \<^verbatim>\<open>return null\<close>.\<close>

definition getCachedEpisode :: "env \<Rightarrow> world \<Rightarrow> error + episode option" where
  "getCachedEpisode env w =
     (case storage_get env CACHE_KEY w of
        Inl err \<Rightarrow> Inr None
      | Inr result \<Rightarrow>
          (case result CACHE_KEY of
             None \<Rightarrow> Inr None
           | Some cached \<Rightarrow>
               if now_read env - fetchedAt cached < CACHE_DURATION_MS then Inr (Some cached)
               else Inr None))"

text \<open>Lines 111-117.\<close>

definition cacheEpisode :: "env \<Rightarrow> episode \<Rightarrow> world \<Rightarrow> (error + unit) \<times> world" where
  "cacheEpisode env ep w =
     (case storage_set env CACHE_KEY ep w of
        (Inl err, w') \<Rightarrow> (Inr (), w')
      | (Inr u, w') \<Rightarrow> (Inr (), w'))"


subsection \<open>Selecting the latest published episode\<close>

text \<open>The comparator of line 70. The difference of two dates is NaN when either is
  invalid, and \<^verbatim>\<open>sort\<close> reads a NaN result as \<open>+0\<close>.\<close>

definition compare_dates :: "env \<Rightarrow> raw_episode \<Rightarrow> raw_episode \<Rightarrow> int" where
  "compare_dates env a b =
     (case (date_value env (published_date b), date_value env (published_date a)) of
        (Some tb, Some ta) \<Rightarrow> tb - ta
      | _ \<Rightarrow> 0)"

text \<open>\<^verbatim>\<open>Array.prototype.sort(cmp)\<close> is a stable sort: an element goes before the
  first element it does not compare greater than.\<close>

fun insert_sorted :: "('a \<Rightarrow> 'a \<Rightarrow> int) \<Rightarrow> 'a \<Rightarrow> 'a list \<Rightarrow> 'a list" where
  "insert_sorted cmp x [] = [x]"
| "insert_sorted cmp x (y # ys) =
     (if cmp x y \<le> 0 then x # y # ys else y # insert_sorted cmp x ys)"

definition array_sort :: "('a \<Rightarrow> 'a \<Rightarrow> int) \<Rightarrow> 'a list \<Rightarrow> 'a list" where
  "array_sort cmp xs = foldr (insert_sorted cmp) xs []"

text \<open>Lines 63-72: filter, the emptiness check, the sort and \<^verbatim>\<open>publishedEpisodes[0]\<close>.\<close>

definition selectLatest :: "env \<Rightarrow> raw_episode list \<Rightarrow> error + raw_episode" where
  "selectLatest env episodes =
     (let publishedEpisodes = filter (\<lambda>ep. published_state ep = ''PUBLISHED'') episodes in
      if length publishedEpisodes = 0 then Inl (Error ''No published episodes found'')
      else
        (case array_sort (compare_dates env) publishedEpisodes of
           [] \<Rightarrow> Inl TypeError
         | latest # rest \<Rightarrow> Inr latest))"

text \<open>Lines 74-83: the audio URL and the episode object. \<^verbatim>\<open>split('T')[0]\<close> is the
  part of the string before its first \<^verbatim>\<open>T\<close>.\<close>

definition buildEpisode :: "env \<Rightarrow> raw_episode \<Rightarrow> episode" where
  "buildEpisode env latest =
     (let audio = CDN_BASE @ ''/'' @ episode_id latest @ ''/'' @ file_name latest in
      \<lparr> title = createTitle env (published_date latest) (episode_number latest),
        date = takeWhile (\<lambda>c. c \<noteq> CHR ''T'') (published_date latest),
        episodeNumber = episode_number latest,
        diggUrl = DIGGDAILY_URL,
        audioUrl = audio,
        fetchedAt = now_stamp env \<rparr>)"

text \<open>Lines 62-83 together: from the raw collection to the episode object.\<close>

definition selectEpisode :: "env \<Rightarrow> raw_episode list \<Rightarrow> error + episode" where
  "selectEpisode env episodes =
     (case selectLatest env episodes of
        Inl err \<Rightarrow> Inl err
      | Inr latest \<Rightarrow> Inr (buildEpisode env latest))"

subsection \<open>fetchLatestEpisode\<close>

text \<open>\<^verbatim>\<open>fetch(API_URL)\<close>: one network call, whose promise rejects or resolves to a
  response.\<close>

definition fetch :: "env \<Rightarrow> world \<Rightarrow> (error + http_response) \<times> world" where
  "fetch env w =
     ((case response env of None \<Rightarrow> Inl FetchRejected | Some r \<Rightarrow> Inr r),
      w\<lparr>net_calls := Suc (net_calls w)\<rparr>)"

text \<open>Lines 41-89.\<close>

definition fetchLatestEpisode :: "env \<Rightarrow> world \<Rightarrow> (error + episode) \<times> world" where
  "fetchLatestEpisode env w =
     (case getCachedEpisode env w of
        Inl err \<Rightarrow> (Inl err, w)
      | Inr (Some cached) \<Rightarrow> (Inr cached, w)
      | Inr None \<Rightarrow>
          (case fetch env w of
             (Inl err, w1) \<Rightarrow> (Inl err, w1)
           | (Inr resp, w1) \<Rightarrow>
               if \<not> ok resp
               then (Inl (Error (''API request failed: '' @ show_nat (status resp))), w1)
               else
                 (case json resp of
                    None \<Rightarrow> (Inl JsonRejected, w1)
                  | Some None \<Rightarrow> (Inl (Error ''No episodes available''), w1)
                  | Some (Some episodes) \<Rightarrow>
                      if length episodes = 0
                      then (Inl (Error ''No episodes available''), w1)
                      else
                        (case selectEpisode env episodes of
                           Inl err \<Rightarrow> (Inl err, w1)
                         | Inr ep \<Rightarrow>
                             (case cacheEpisode env ep w1 of
                                (Inl err, w2) \<Rightarrow> (Inl err, w2)
                              | (Inr u, w2) \<Rightarrow> (Inr ep, w2))))))"

subsection \<open>The popup's controller\<close>




section \<open>Content script (chrome-extension/content.js)\<close>

subsection \<open>The document tree\<close>

text \<open>An element of the host page: its tag name, its \<^verbatim>\<open>id\<close>, its \<^verbatim>\<open>href\<close> attribute
  (\<open>None\<close> when it has none), its class list and its child elements. A node is named
  by its path from the root element: the list of child indices that leads to it.\<close>

datatype element =
  Element (tagName: string) (elemId: string) (href: "string option")
    (classList: "string list") (children: "element list")

fun get_node :: "element \<Rightarrow> nat list \<Rightarrow> element option" where
  "get_node e [] = Some e"
| "get_node e (k # p) =
     (if k < length (children e) then get_node (children e ! k) p else None)"

fun update_at :: "(element \<Rightarrow> element) \<Rightarrow> nat list \<Rightarrow> element \<Rightarrow> element" where
  "update_at f [] e = f e"
| "update_at f (k # p) (Element t i h cs ch) =
     (if k < length ch then Element t i h cs (ch[k := update_at f p (ch ! k)])
      else Element t i h cs ch)"

text \<open>\<^verbatim>\<open>s.includes(sub)\<close>: \<open>sub\<close> starts at some position of \<open>s\<close>.\<close>

fun str_includes :: "string \<Rightarrow> string \<Rightarrow> bool" where
  "str_includes [] sub = (sub = [])"
| "str_includes (c # cs) sub = (prefix sub (c # cs) \<or> str_includes cs sub)"

text \<open>\<^verbatim>\<open>querySelectorAll\<close>: the paths of the elements a selector matches, in document
  order.\<close>

fun querySelectorAll :: "(element \<Rightarrow> bool) \<Rightarrow> element \<Rightarrow> nat list list"
  and querySelectorAll_from :: "(element \<Rightarrow> bool) \<Rightarrow> nat \<Rightarrow> element list \<Rightarrow> nat list list"
where
  "querySelectorAll sel (Element t i h cs ch) =
     (if sel (Element t i h cs ch) then [[]] else []) @ querySelectorAll_from sel 0 ch"
| "querySelectorAll_from sel k [] = []"
| "querySelectorAll_from sel k (c # cs) =
     map ((#) k) (querySelectorAll sel c) @ querySelectorAll_from sel (Suc k) cs"

text \<open>The selector \<^verbatim>\<open>a[href*="/diggdaily/"]\<close> of line 37.\<close>

definition diggdaily_link :: "element \<Rightarrow> bool" where
  "diggdaily_link e =
     (tagName e = ''a'' \<and> (case href e of None \<Rightarrow> False | Some h \<Rightarrow> str_includes h ''/diggdaily/''))"

text \<open>\<^verbatim>\<open>link.getAttribute('href')\<close>.\<close>

definition getAttribute_href :: "element \<Rightarrow> nat list \<Rightarrow> string option" where
  "getAttribute_href doc p = (case get_node doc p of None \<Rightarrow> None | Some e \<Rightarrow> href e)"

text \<open>\<^verbatim>\<open>el.closest(tag)\<close>: the nearest of the element and its ancestors, the element
  first, that has the tag name.\<close>

definition closest :: "element \<Rightarrow> nat list \<Rightarrow> string \<Rightarrow> nat list option" where
  "closest doc p tag =
     find (\<lambda>q. map_option tagName (get_node doc q) = Some tag) (rev (prefixes p))"

text \<open>\<^verbatim>\<open>classList.contains\<close> and \<^verbatim>\<open>classList.add\<close> of the element at a path.\<close>

definition classList_contains :: "element \<Rightarrow> nat list \<Rightarrow> string \<Rightarrow> bool" where
  "classList_contains doc p c =
     (case get_node doc p of None \<Rightarrow> False | Some e \<Rightarrow> c \<in> set (classList e))"

fun add_token :: "string \<Rightarrow> element \<Rightarrow> element" where
  "add_token c (Element t i h cs ch) =
     Element t i h (if c \<in> set cs then cs else cs @ [c]) ch"

definition classList_add :: "element \<Rightarrow> nat list \<Rightarrow> string \<Rightarrow> element" where
  "classList_add doc p c = update_at (add_token c) p doc"

subsection \<open>highlightOfficialPosts\<close>

text \<open>The test of lines 43-45 on the \<^verbatim>\<open>href\<close> of a link.\<close>

definition official_href :: "string \<Rightarrow> bool" where
  "official_href h =
     (str_includes h ''/digg-daily-'' \<and> \<not> str_includes h ''homemade'' \<and> \<not> str_includes h ''recap'')"

text \<open>\<^verbatim>\<open>link.closest('article') || link.closest('div')\<close>, line 48.\<close>

definition container_of :: "element \<Rightarrow> nat list \<Rightarrow> nat list option" where
  "container_of doc link =
     (case closest doc link ''article'' of
        Some c \<Rightarrow> Some c
      | None \<Rightarrow> closest doc link ''div'')"

text \<open>Lines 40-48 for one link, without the write: the container the callback adds the
  class to, or none when the \<^verbatim>\<open>href\<close> fails the test or no container is found.\<close>

definition link_target :: "element \<Rightarrow> nat list \<Rightarrow> nat list option" where
  "link_target doc link =
     (let h = (case getAttribute_href doc link of None \<Rightarrow> [] | Some s \<Rightarrow> s) in
      if official_href h then container_of doc link else None)"

text \<open>The callback of \<^verbatim>\<open>links.forEach\<close>, lines 39-53.\<close>

definition highlightLink :: "element \<Rightarrow> nat list \<Rightarrow> element" where
  "highlightLink doc link =
     (let h = (case getAttribute_href doc link of None \<Rightarrow> [] | Some s \<Rightarrow> s) in
      if official_href h then
        (case container_of doc link of
           None \<Rightarrow> doc
         | Some container \<Rightarrow>
             if \<not> classList_contains doc container ''digg-daily-official''
             then classList_add doc container ''digg-daily-official''
             else doc)
      else doc)"

text \<open>Lines 36-54.\<close>

definition highlightOfficialPosts :: "element \<Rightarrow> element" where
  "highlightOfficialPosts doc = foldl highlightLink doc (querySelectorAll diggdaily_link doc)"

text \<open>The marked nodes of a tree: the paths of the elements that carry the class, in
  document order.\<close>

definition marked_nodes :: "element \<Rightarrow> nat list list" where
  "marked_nodes doc = querySelectorAll (\<lambda>e. ''digg-daily-official'' \<in> set (classList e)) doc"

subsection \<open>addQuickPlayButton\<close>

text \<open>The button of lines 17-25; its \<^verbatim>\<open>innerHTML\<close> parses to an \<^verbatim>\<open>svg\<close> holding a
  \<^verbatim>\<open>path\<close>, and a \<^verbatim>\<open>span\<close>.\<close>

definition quick_play_button :: element where
  "quick_play_button =
     Element ''button'' ''digg-daily-quick-play'' None []
       [Element ''svg'' [] None [] [Element ''path'' [] None [] []],
        Element ''span'' [] None [] []]"

definition getElementById :: "element \<Rightarrow> string \<Rightarrow> nat list option" where
  "getElementById doc i =
     (case querySelectorAll (\<lambda>e. elemId e = i) doc of [] \<Rightarrow> None | p # ps \<Rightarrow> Some p)"

text \<open>\<^verbatim>\<open>document.body\<close>: the first child of the \<^verbatim>\<open>html\<close> element that is a
  \<^verbatim>\<open>body\<close> or a \<^verbatim>\<open>frameset\<close>, or null.\<close>

definition document_body :: "element \<Rightarrow> nat list option" where
  "document_body doc =
     (if tagName doc = ''html'' then
        (case find (\<lambda>k. tagName (children doc ! k) = ''body'' \<or>
                        tagName (children doc ! k) = ''frameset'')
                [0..<length (children doc)] of
           None \<Rightarrow> None
         | Some k \<Rightarrow> Some [k])
      else None)"

fun append_child :: "element \<Rightarrow> element \<Rightarrow> element" where
  "append_child c (Element t i h cs ch) = Element t i h cs (ch @ [c])"

definition appendChild :: "element \<Rightarrow> nat list \<Rightarrow> element \<Rightarrow> element" where
  "appendChild doc p c = update_at (append_child c) p doc"

text \<open>Lines 13-33. \<^verbatim>\<open>document.body.appendChild\<close> throws a TypeError when the
  document has no body.\<close>

definition addQuickPlayButton :: "element \<Rightarrow> error + element" where
  "addQuickPlayButton doc =
     (case getElementById doc ''digg-daily-quick-play'' of
        Some p \<Rightarrow> Inr doc
      | None \<Rightarrow>
          (case document_body doc of
             None \<Rightarrow> Inl TypeError
           | Some b \<Rightarrow> Inr (appendChild doc b quick_play_button)))"

subsection \<open>The script\<close>

text \<open>The page the script runs in: \<^verbatim>\<open>window.location.hostname\<close>,
  \<^verbatim>\<open>document.readyState\<close>, the document tree, whether the script's
  \<^verbatim>\<open>DOMContentLoaded\<close> listener is registered and whether its mutation observer
  observes the body.\<close>

record page =
  hostname :: string
  readyState :: string
  doc_tree :: element
  dcl_listener :: bool
  observer_installed :: bool

text \<open>Lines 59-60 and 63-64: the button, then the marking pass. An exception ends the
  run and leaves the page as it was when thrown.\<close>

definition button_and_highlight :: "page \<Rightarrow> error option \<times> page" where
  "button_and_highlight pg =
     (case addQuickPlayButton (doc_tree pg) of
        Inl err \<Rightarrow> (Some err, pg)
      | Inr d \<Rightarrow> (None, pg\<lparr>doc_tree := highlightOfficialPosts d\<rparr>))"

text \<open>Lines 9-76, the whole script. \<^verbatim>\<open>observer.observe(document.body, ...)\<close> throws
  a TypeError when the document has no body.\<close>

definition contentScript :: "page \<Rightarrow> error option \<times> page" where
  "contentScript pg =
     (if str_includes (hostname pg) ''digg.com'' then
        (case (if readyState pg = ''loading'' then (None, pg\<lparr>dcl_listener := True\<rparr>)
               else button_and_highlight pg) of
           (Some err, pg1) \<Rightarrow> (Some err, pg1)
         | (None, pg1) \<Rightarrow>
             (case document_body (doc_tree pg1) of
                None \<Rightarrow> (Some TypeError, pg1)
              | Some b \<Rightarrow> (None, pg1\<lparr>observer_installed := True\<rparr>)))
      else (None, pg))"

text \<open>The two callbacks the script may have left behind: the \<^verbatim>\<open>DOMContentLoaded\<close>
  listener (lines 58-61) and the observer's callback (lines 68-70), run when the
  browser delivers the event.\<close>

definition on_DOMContentLoaded :: "page \<Rightarrow> error option \<times> page" where
  "on_DOMContentLoaded pg = (if dcl_listener pg then button_and_highlight pg else (None, pg))"

definition on_mutation :: "page \<Rightarrow> page" where
  "on_mutation pg =
     (if observer_installed pg then pg\<lparr>doc_tree := highlightOfficialPosts (doc_tree pg)\<rparr> else pg)"

section \<open>Scenarios\<close>

text \<open>Concrete inputs at which the theorems below are instantiated. The dates are those
  of the scenarios in the specification; the runtime renders them in UTC.\<close>

definition scenario_dates :: "string \<Rightarrow> int option" where
  "scenario_dates s =
     (if s = ''2024-03-01'' then Some 1709251200000
      else if s = ''2024-03-02'' then Some 1709337600000
      else if s = ''2024-03-03'' then Some 1709424000000
      else if s = ''2024-02-28T09:00:00Z'' then Some 1709110800000
      else None)"

definition scenario_episodes :: "raw_episode list" where
  "scenario_episodes =
     [\<lparr>episode_id = ''6'', file_name = ''digg-daily-39.mp3'',
       published_date = ''2024-02-28T09:00:00Z'', published_state = ''PUBLISHED'',
       episode_number = 39\<rparr>,
      \<lparr>episode_id = ''7'', file_name = ''digg-daily-40.mp3'',
       published_date = ''2024-03-01'', published_state = ''PUBLISHED'', episode_number = 40\<rparr>,
      \<lparr>episode_id = ''8'', file_name = ''digg-daily-41.mp3'',
       published_date = ''2024-03-02'', published_state = ''DRAFT'', episode_number = 41\<rparr>]"

definition draft_episodes :: "raw_episode list" where
  "draft_episodes =
     [\<lparr>episode_id = ''8'', file_name = ''digg-daily-41.mp3'',
       published_date = ''2024-03-02'', published_state = ''DRAFT'', episode_number = 41\<rparr>,
      \<lparr>episode_id = ''9'', file_name = ''digg-daily-42.mp3'',
       published_date = ''2024-03-03'', published_state = ''published'', episode_number = 42\<rparr>]"

definition scenario_env :: env where
  "scenario_env =
     \<lparr>get_rejects = False, set_rejects = False, remove_rejects = False,
      now_read = 1709300000000, now_stamp = 1709300000250,
      response = Some \<lparr>status = 200, json = Some (Some scenario_episodes)\<rparr>,
      date_value = scenario_dates,
      month_long = (\<lambda>t. if t < 1709251200000 then ''February'' else ''March''),
      getDate = (\<lambda>t. if t < 1709251200000 then 28 else 1 + (t - 1709251200000) div 86400000),
      getFullYear = (\<lambda>t. 2024)\<rparr>"


text \<open>An entry stored 29 minutes before the read, and one stored 31 minutes before.\<close>

definition cached_episode :: episode where
  "cached_episode =
     \<lparr>title = ''Digg Daily #39 - February 28, 2024'', date = ''2024-02-28'', episodeNumber = 39,
      diggUrl = ''https://digg.com/diggdaily'',
      audioUrl = ''https://d3tha58ojcqcpf.cloudfront.net/prod/episodes/6/digg-daily-39.mp3'',
      fetchedAt = 1709300000000 - 29 * 60 * 1000\<rparr>"

definition stale_episode :: episode where
  "stale_episode = cached_episode\<lparr>fetchedAt := 1709300000000 - 31 * 60 * 1000\<rparr>"

definition world_with :: "episode option \<Rightarrow> world" where
  "world_with c = \<lparr>storage = Map.empty(CACHE_KEY := c), net_calls = 0\<rparr>"

text \<open>A page with two posts, one linking an official episode and one a homemade
  recap; a page whose first official link has no \<^verbatim>\<open>article\<close> or \<^verbatim>\<open>div\<close> around it;
  and the first page served from a host that only contains the site's name.\<close>

definition scenario_doc :: element where
  "scenario_doc =
     Element ''html'' [] None []
       [Element ''head'' [] None [] [],
        Element ''body'' [] None []
          [Element ''div'' [] None [''post'']
             [Element ''a'' [] (Some ''/diggdaily/digg-daily-123'') [] []],
           Element ''div'' [] None []
             [Element ''a'' [] (Some ''/diggdaily/digg-daily-homemade-5'') [] []]]]"

definition bare_doc :: element where
  "bare_doc =
     Element ''html'' [] None []
       [Element ''body'' [] None []
          [Element ''section'' [] None []
             [Element ''a'' [] (Some ''/diggdaily/digg-daily-124'') [] []],
           Element ''article'' [] None []
             [Element ''a'' [] (Some ''/diggdaily/digg-daily-125'') [] []]]]"

definition foreign_page :: page where
  "foreign_page =
     \<lparr>hostname = ''notdigg.com'', readyState = ''complete'', doc_tree = scenario_doc,
      dcl_listener = False, observer_installed = False\<rparr>"

section \<open>Properties of the popup script\<close>

subsection \<open>The sort\<close>

lemma array_sort_Nil: "array_sort cmp [] = []"
  by (simp add: array_sort_def)

lemma array_sort_Cons: "array_sort cmp (x # xs) = insert_sorted cmp x (array_sort cmp xs)"
  by (simp add: array_sort_def)

lemma compare_dates_valid:
  "date_value env (published_date a) = Some ta \<Longrightarrow> date_value env (published_date b) = Some tb \<Longrightarrow>
   compare_dates env a b = tb - ta"
  by (simp add: compare_dates_def)

text \<open>When every date is valid, the sorted array starts with an element of the latest
  date.\<close>

lemma array_sort_head_max:
  assumes "xs \<noteq> []" and "\<forall>x\<in>set xs. date_value env (published_date x) \<noteq> None"
  shows "\<exists>l rest t. array_sort (compare_dates env) xs = l # rest \<and> l \<in> set xs \<and>
           date_value env (published_date l) = Some t \<and>
           (\<forall>x\<in>set xs. \<exists>t'. date_value env (published_date x) = Some t' \<and> t' \<le> t)"
  using assms
proof (induction xs)
  case Nil
  then show ?case by simp
next
  case (Cons x xs)
  from Cons.prems obtain tx where tx: "date_value env (published_date x) = Some tx" by auto
  show ?case
  proof (cases "xs = []")
    case True
    with tx show ?thesis by (simp add: array_sort_Cons array_sort_Nil)
  next
    case False
    with Cons obtain l rest t where
      s: "array_sort (compare_dates env) xs = l # rest" and l: "l \<in> set xs" and
      t: "date_value env (published_date l) = Some t" and
      m: "\<forall>y\<in>set xs. \<exists>t'. date_value env (published_date y) = Some t' \<and> t' \<le> t"
      by auto
    have c: "compare_dates env x l = t - tx" using tx t by (rule compare_dates_valid)
    show ?thesis
    proof (cases "t \<le> tx")
      case True
      have "array_sort (compare_dates env) (x # xs) = x # l # rest"
        using True c s by (simp add: array_sort_Cons)
      moreover have "\<forall>y\<in>set (x # xs). \<exists>t'. date_value env (published_date y) = Some t' \<and> t' \<le> tx"
        using m True tx by fastforce
      ultimately show ?thesis using tx by auto
    next
      case False
      have "array_sort (compare_dates env) (x # xs) = l # insert_sorted (compare_dates env) x rest"
        using False c s by (simp add: array_sort_Cons)
      moreover have "\<forall>y\<in>set (x # xs). \<exists>t'. date_value env (published_date y) = Some t' \<and> t' \<le> t"
        using m False tx by fastforce
      ultimately show ?thesis using t l by auto
    qed
  qed
qed

text \<open>The selection reads the environment through the \<^verbatim>\<open>Date\<close> runtime only.\<close>

lemma selectLatest_dates_only:
  assumes "date_value e1 = date_value e2"
  shows "selectLatest e1 eps = selectLatest e2 eps"
proof -
  have c: "compare_dates e1 = compare_dates e2"
    using assms by (simp add: compare_dates_def fun_eq_iff)
  show ?thesis unfolding selectLatest_def c ..
qed

lemma createTitle_runtime_only:
  assumes "date_value e1 = date_value e2" and "month_long e1 = month_long e2"
    and "getDate e1 = getDate e2" and "getFullYear e1 = getFullYear e2"
  shows "createTitle e1 d n = createTitle e2 d n"
  by (simp only: createTitle_def assms)


subsection \<open>The cache wrappers\<close>

lemma getCachedEpisode_ok:
  "\<not> get_rejects env \<Longrightarrow>
   getCachedEpisode env w =
     Inr (case storage w CACHE_KEY of
            None \<Rightarrow> None
          | Some c \<Rightarrow> if now_read env - fetchedAt c < CACHE_DURATION_MS then Some c else None)"
  by (simp add: getCachedEpisode_def storage_get_def split: option.splits)


lemma cacheEpisode_eq:
  "cacheEpisode env ep w =
     (Inr (), if set_rejects env then w else w\<lparr>storage := (storage w)(CACHE_KEY \<mapsto> ep)\<rparr>)"
  by (simp add: cacheEpisode_def storage_set_def)


subsection \<open>fetchLatestEpisode on a hit and on a miss\<close>

lemma fetchLatestEpisode_hit:
  "getCachedEpisode env w = Inr (Some c) \<Longrightarrow> fetchLatestEpisode env w = (Inr c, w)"
  by (simp add: fetchLatestEpisode_def)

lemma fetchLatestEpisode_miss_calls:
  "getCachedEpisode env w = Inr None \<Longrightarrow>
   net_calls (snd (fetchLatestEpisode env w)) = Suc (net_calls w)"
  by (simp add: fetchLatestEpisode_def fetch_def cacheEpisode_eq
      split: option.splits sum.splits)

lemma fetchLatestEpisode_miss_result:
  "getCachedEpisode env w = Inr None \<Longrightarrow>
   fst (fetchLatestEpisode env w) =
     (case response env of
        None \<Rightarrow> Inl FetchRejected
      | Some resp \<Rightarrow>
          if \<not> ok resp then Inl (Error (''API request failed: '' @ show_nat (status resp)))
          else
            (case json resp of
               None \<Rightarrow> Inl JsonRejected
             | Some None \<Rightarrow> Inl (Error ''No episodes available'')
             | Some (Some episodes) \<Rightarrow>
                 if length episodes = 0 then Inl (Error ''No episodes available'')
                 else selectEpisode env episodes))"
  by (simp add: fetchLatestEpisode_def fetch_def cacheEpisode_eq
      split: option.splits sum.splits)

lemma fetchLatestEpisode_miss_success:
  assumes "getCachedEpisode env w = Inr None" and "fst (fetchLatestEpisode env w) = Inr ep"
  shows "\<exists>r eps. response env = Some r \<and> ok r \<and> json r = Some (Some eps) \<and> eps \<noteq> [] \<and>
           selectEpisode env eps = Inr ep \<and>
           snd (fetchLatestEpisode env w) =
             (if set_rejects env then w\<lparr>net_calls := Suc (net_calls w)\<rparr>
              else w\<lparr>net_calls := Suc (net_calls w), storage := (storage w)(CACHE_KEY \<mapsto> ep)\<rparr>)"
  using assms
  by (auto simp add: fetchLatestEpisode_def fetch_def cacheEpisode_eq
      split: option.splits sum.splits if_splits)

text \<open>A miss answered with a collection the selection accepts returns the selected
  episode, after one call, and stores it unless the write is rejected.\<close>

lemma fetchLatestEpisode_miss_production:
  assumes "getCachedEpisode env w = Inr None" and "response env = Some r" and "ok r"
    and "json r = Some (Some eps)" and "eps \<noteq> []" and "selectEpisode env eps = Inr ep"
  shows "fetchLatestEpisode env w =
           (Inr ep,
            if set_rejects env then w\<lparr>net_calls := Suc (net_calls w)\<rparr>
            else w\<lparr>net_calls := Suc (net_calls w), storage := (storage w)(CACHE_KEY \<mapsto> ep)\<rparr>)"
  using assms by (simp add: fetchLatestEpisode_def fetch_def cacheEpisode_eq)

text \<open>Inside \<^verbatim>\<open>fetchLatestEpisode\<close> an empty collection does not reach the filter:
  the check of line 58 throws first.\<close>

lemma fetchLatestEpisode_empty_collection:
  assumes "getCachedEpisode env w = Inr None" and "response env = Some r" and "ok r"
    and "json r = Some (Some [])"
  shows "fst (fetchLatestEpisode env w) = Inl (Error ''No episodes available'')"
  using assms by (simp add: fetchLatestEpisode_miss_result)




subsection \<open>The scenarios, evaluated\<close>

lemma selectLatest_scenario:
  "selectLatest scenario_env scenario_episodes = Inr (scenario_episodes ! 1)"
  by (simp add: selectLatest_def scenario_episodes_def scenario_env_def scenario_dates_def
      array_sort_def compare_dates_def)

lemma selectEpisode_scenario:
  "selectEpisode scenario_env scenario_episodes =
     Inr (buildEpisode scenario_env (scenario_episodes ! 1))"
  by (simp add: selectEpisode_def selectLatest_scenario)

lemma scenario_response:
  "response scenario_env = Some \<lparr>status = 200, json = Some (Some scenario_episodes)\<rparr>"
  "ok \<lparr>status = 200, json = Some (Some scenario_episodes)\<rparr>"
  "json \<lparr>status = 200, json = Some (Some scenario_episodes)\<rparr> = Some (Some scenario_episodes)"
  "scenario_episodes \<noteq> []"
  by (simp_all add: scenario_env_def ok_def scenario_episodes_def)

lemma scenario_get_ok: "\<not> get_rejects scenario_env"
  by (simp add: scenario_env_def)

lemma scenario_set_ok: "\<not> set_rejects scenario_env"
  by (simp add: scenario_env_def)

subsection \<open>Cache hit and cache miss\<close>

text \<open>Claim C1. When the storage read succeeds, \<^verbatim>\<open>fetchLatestEpisode\<close> issues a network
  call if and only if no valid cache entry exists (no stored entry, or one whose age
  \<open>now - fetchedAt\<close> has reached the 30-minute window). With an entry younger than the
  window it returns that entry and leaves the state, and so the count of network calls,
  unchanged. On a miss it issues exactly one call. When that call is answered with a
  non-empty collection from which the selection yields an episode, that episode is
  returned, and it is stored under the cache key when the write succeeds; and no other
  episode is ever returned on a miss.\<close>

theorem fetch_iff_no_valid_cache_entry:
  assumes "\<not> get_rejects env"
  shows "((\<exists>c. storage w CACHE_KEY = Some c \<and> now_read env - fetchedAt c < CACHE_DURATION_MS) \<longrightarrow>
            (\<exists>c. storage w CACHE_KEY = Some c \<and> fetchLatestEpisode env w = (Inr c, w))) \<and>
         (\<not> (\<exists>c. storage w CACHE_KEY = Some c \<and> now_read env - fetchedAt c < CACHE_DURATION_MS) \<longrightarrow>
            net_calls (snd (fetchLatestEpisode env w)) = net_calls w + 1 \<and>
            (\<forall>ep. fst (fetchLatestEpisode env w) = Inr ep \<longrightarrow>
               (\<exists>r eps. response env = Some r \<and> json r = Some (Some eps) \<and>
                  selectEpisode env eps = Inr ep) \<and>
               (\<not> set_rejects env \<longrightarrow> storage (snd (fetchLatestEpisode env w)) CACHE_KEY = Some ep)) \<and>
            (\<forall>r eps ep. response env = Some r \<and> ok r \<and> json r = Some (Some eps) \<and> eps \<noteq> [] \<and>
                 selectEpisode env eps = Inr ep \<longrightarrow>
               fst (fetchLatestEpisode env w) = Inr ep \<and>
               (\<not> set_rejects env \<longrightarrow> storage (snd (fetchLatestEpisode env w)) CACHE_KEY = Some ep))) \<and>
         (net_calls (snd (fetchLatestEpisode env w)) \<noteq> net_calls w) =
           (\<not> (\<exists>c. storage w CACHE_KEY = Some c \<and> now_read env - fetchedAt c < CACHE_DURATION_MS))"
proof (cases "\<exists>c. storage w CACHE_KEY = Some c \<and> now_read env - fetchedAt c < CACHE_DURATION_MS")
  case True
  then obtain c where c: "storage w CACHE_KEY = Some c"
    "now_read env - fetchedAt c < CACHE_DURATION_MS" by blast
  then have "getCachedEpisode env w = Inr (Some c)"
    using assms by (simp add: getCachedEpisode_ok)
  then have "fetchLatestEpisode env w = (Inr c, w)" by (rule fetchLatestEpisode_hit)
  with True c show ?thesis by simp
next
  case False
  then have miss: "getCachedEpisode env w = Inr None"
    using assms by (auto simp add: getCachedEpisode_ok split: option.splits)
  have calls: "net_calls (snd (fetchLatestEpisode env w)) = net_calls w + 1"
    using fetchLatestEpisode_miss_calls [OF miss] by simp
  have ret_sel: "(\<exists>r eps. response env = Some r \<and> json r = Some (Some eps) \<and>
                  selectEpisode env eps = Inr ep) \<and>
        (\<not> set_rejects env \<longrightarrow> storage (snd (fetchLatestEpisode env w)) CACHE_KEY = Some ep)"
    if "fst (fetchLatestEpisode env w) = Inr ep" for ep
    using fetchLatestEpisode_miss_success [OF miss that] by auto
  have sel_ret: "fst (fetchLatestEpisode env w) = Inr ep \<and>
        (\<not> set_rejects env \<longrightarrow> storage (snd (fetchLatestEpisode env w)) CACHE_KEY = Some ep)"
    if "response env = Some r" "ok r" "json r = Some (Some eps)" "eps \<noteq> []"
      "selectEpisode env eps = Inr ep" for r eps ep
    using fetchLatestEpisode_miss_production [OF miss that] by simp
  have "\<forall>r eps ep. response env = Some r \<and> ok r \<and> json r = Some (Some eps) \<and> eps \<noteq> [] \<and>
           selectEpisode env eps = Inr ep \<longrightarrow>
         fst (fetchLatestEpisode env w) = Inr ep \<and>
         (\<not> set_rejects env \<longrightarrow> storage (snd (fetchLatestEpisode env w)) CACHE_KEY = Some ep)"
    using sel_ret by blast
  moreover have "\<forall>ep. fst (fetchLatestEpisode env w) = Inr ep \<longrightarrow>
         (\<exists>r eps. response env = Some r \<and> json r = Some (Some eps) \<and>
            selectEpisode env eps = Inr ep) \<and>
         (\<not> set_rejects env \<longrightarrow> storage (snd (fetchLatestEpisode env w)) CACHE_KEY = Some ep)"
    using ret_sel by blast
  moreover have "net_calls (snd (fetchLatestEpisode env w)) \<noteq> net_calls w"
    using calls by simp
  ultimately show ?thesis using False calls by blast
qed

theorem fetch_iff_no_valid_cache_entry_witness:
  "fetchLatestEpisode scenario_env (world_with (Some cached_episode)) =
     (Inr cached_episode, world_with (Some cached_episode)) \<and>
   net_calls (snd (fetchLatestEpisode scenario_env (world_with (Some stale_episode)))) = 1 \<and>
   net_calls (snd (fetchLatestEpisode scenario_env (world_with None))) = 1 \<and>
   fst (fetchLatestEpisode scenario_env (world_with (Some stale_episode))) =
     Inr (buildEpisode scenario_env (scenario_episodes ! 1)) \<and>
   storage (snd (fetchLatestEpisode scenario_env (world_with (Some stale_episode)))) CACHE_KEY =
     Some (buildEpisode scenario_env (scenario_episodes ! 1)) \<and>
   episodeNumber (buildEpisode scenario_env (scenario_episodes ! 1)) = 40 \<and>
   fetchedAt (buildEpisode scenario_env (scenario_episodes ! 1)) = 1709300000250"
proof -
  have fresh: "\<exists>c. storage (world_with (Some cached_episode)) CACHE_KEY = Some c \<and>
      now_read scenario_env - fetchedAt c < CACHE_DURATION_MS"
    by (simp add: world_with_def scenario_env_def cached_episode_def CACHE_DURATION_MS_def)
  have stale: "\<not> (\<exists>c. storage (world_with (Some stale_episode)) CACHE_KEY = Some c \<and>
      now_read scenario_env - fetchedAt c < CACHE_DURATION_MS)"
    by (simp add: world_with_def scenario_env_def cached_episode_def stale_episode_def
        CACHE_DURATION_MS_def)
  have none: "\<not> (\<exists>c. storage (world_with None) CACHE_KEY = Some c \<and>
      now_read scenario_env - fetchedAt c < CACHE_DURATION_MS)"
    by (simp add: world_with_def)
  have a: "fetchLatestEpisode scenario_env (world_with (Some cached_episode)) =
     (Inr cached_episode, world_with (Some cached_episode))"
    using fetch_iff_no_valid_cache_entry [OF scenario_get_ok, of "world_with (Some cached_episode)"]
      fresh by (auto simp add: world_with_def)
  have b: "net_calls (snd (fetchLatestEpisode scenario_env (world_with (Some stale_episode)))) = 1"
    using fetch_iff_no_valid_cache_entry [OF scenario_get_ok, of "world_with (Some stale_episode)"]
      stale by (simp add: world_with_def)
  have c: "net_calls (snd (fetchLatestEpisode scenario_env (world_with None))) = 1"
    using fetch_iff_no_valid_cache_entry [OF scenario_get_ok, of "world_with None"]
      none by (simp add: world_with_def)
  have "\<forall>r eps ep. response scenario_env = Some r \<and> ok r \<and> json r = Some (Some eps) \<and>
         eps \<noteq> [] \<and> selectEpisode scenario_env eps = Inr ep \<longrightarrow>
       fst (fetchLatestEpisode scenario_env (world_with (Some stale_episode))) = Inr ep \<and>
       (\<not> set_rejects scenario_env \<longrightarrow>
          storage (snd (fetchLatestEpisode scenario_env (world_with (Some stale_episode))))
            CACHE_KEY = Some ep)"
    using fetch_iff_no_valid_cache_entry [OF scenario_get_ok, of "world_with (Some stale_episode)"]
      stale by blast
  then have d: "fst (fetchLatestEpisode scenario_env (world_with (Some stale_episode))) =
      Inr (buildEpisode scenario_env (scenario_episodes ! 1)) \<and>
    storage (snd (fetchLatestEpisode scenario_env (world_with (Some stale_episode)))) CACHE_KEY =
      Some (buildEpisode scenario_env (scenario_episodes ! 1))"
    using scenario_response selectEpisode_scenario scenario_set_ok by blast
  have e: "episodeNumber (buildEpisode scenario_env (scenario_episodes ! 1)) = 40"
    "fetchedAt (buildEpisode scenario_env (scenario_episodes ! 1)) = 1709300000250"
    by (simp_all add: buildEpisode_def scenario_episodes_def scenario_env_def)
  from a b c d e show ?thesis by simp
qed

subsection \<open>Selection\<close>

text \<open>Claim C2. For every raw collection that holds at least one record whose
  \<^verbatim>\<open>published_state\<close> is exactly \<^verbatim>\<open>PUBLISHED\<close>, each such record carrying a valid
  date, the selection returns a record of the collection that is published and whose
  date is the latest among the published records; records in any other state do not
  count. The episode object is built from that record, and it is what
  \<^verbatim>\<open>fetchLatestEpisode\<close> returns when a miss is answered with this collection.\<close>

theorem select_latest_maximal:
  assumes "\<exists>ep\<in>set episodes. published_state ep = ''PUBLISHED''"
    and "\<forall>ep\<in>set episodes. published_state ep = ''PUBLISHED'' \<longrightarrow>
           date_value env (published_date ep) \<noteq> None"
  shows "\<exists>latest t. selectLatest env episodes = Inr latest \<and>
           selectEpisode env episodes = Inr (buildEpisode env latest) \<and>
           latest \<in> set episodes \<and> published_state latest = ''PUBLISHED'' \<and>
           date_value env (published_date latest) = Some t \<and>
           (\<forall>ep\<in>set episodes. published_state ep = ''PUBLISHED'' \<longrightarrow>
              (\<exists>t'. date_value env (published_date ep) = Some t' \<and> t' \<le> t)) \<and>
           (\<forall>w r. getCachedEpisode env w = Inr None \<and> response env = Some r \<and> ok r \<and>
                  json r = Some (Some episodes) \<longrightarrow>
              fst (fetchLatestEpisode env w) = Inr (buildEpisode env latest))"
proof -
  let ?pub = "filter (\<lambda>ep. published_state ep = ''PUBLISHED'') episodes"
  have ne: "?pub \<noteq> []" using assms(1) by (auto simp: filter_empty_conv)
  have valid: "\<forall>x\<in>set ?pub. date_value env (published_date x) \<noteq> None" using assms(2) by auto
  from array_sort_head_max [OF ne valid] obtain l rest t where
    s: "array_sort (compare_dates env) ?pub = l # rest" and l: "l \<in> set ?pub" and
    t: "date_value env (published_date l) = Some t" and
    m: "\<forall>x\<in>set ?pub. \<exists>t'. date_value env (published_date x) = Some t' \<and> t' \<le> t"
    by blast
  have sel: "selectLatest env episodes = Inr l"
    using ne s by (simp add: selectLatest_def)
  then have ep: "selectEpisode env episodes = Inr (buildEpisode env l)"
    by (simp add: selectEpisode_def)
  have "episodes \<noteq> []" using assms(1) by auto
  with ep have "fst (fetchLatestEpisode env w) = Inr (buildEpisode env l)"
    if "getCachedEpisode env w = Inr None" "response env = Some r" "ok r"
      "json r = Some (Some episodes)" for w r
    using that by (simp add: fetchLatestEpisode_miss_result)
  with sel ep l t m show ?thesis by auto
qed

theorem select_latest_maximal_witness:
  "\<exists>latest t. selectLatest scenario_env scenario_episodes = Inr latest \<and>
     selectEpisode scenario_env scenario_episodes = Inr (buildEpisode scenario_env latest) \<and>
     latest \<in> set scenario_episodes \<and> published_state latest = ''PUBLISHED'' \<and>
     episode_number latest = 40 \<and>
     date_value scenario_env (published_date latest) = Some t \<and>
     (\<forall>ep\<in>set scenario_episodes. published_state ep = ''PUBLISHED'' \<longrightarrow>
        (\<exists>t'. date_value scenario_env (published_date ep) = Some t' \<and> t' \<le> t))"
proof -
  have h1: "\<exists>ep\<in>set scenario_episodes. published_state ep = ''PUBLISHED''"
    by (simp add: scenario_episodes_def)
  have h2: "\<forall>ep\<in>set scenario_episodes. published_state ep = ''PUBLISHED'' \<longrightarrow>
              date_value scenario_env (published_date ep) \<noteq> None"
    by (simp add: scenario_episodes_def scenario_env_def scenario_dates_def)
  from select_latest_maximal [OF h1 h2] obtain latest t where
    l: "selectLatest scenario_env scenario_episodes = Inr latest"
      "selectEpisode scenario_env scenario_episodes = Inr (buildEpisode scenario_env latest)"
      "latest \<in> set scenario_episodes" "published_state latest = ''PUBLISHED''"
      "date_value scenario_env (published_date latest) = Some t"
      "\<forall>ep\<in>set scenario_episodes. published_state ep = ''PUBLISHED'' \<longrightarrow>
        (\<exists>t'. date_value scenario_env (published_date ep) = Some t' \<and> t' \<le> t)"
    by blast
  from l(1) have "latest = scenario_episodes ! 1" by (simp add: selectLatest_scenario)
  then have "episode_number latest = 40" by (simp add: scenario_episodes_def)
  with l show ?thesis by blast
qed

text \<open>Claim C3. For every raw collection without a record whose \<^verbatim>\<open>published_state\<close> is
  \<^verbatim>\<open>PUBLISHED\<close>, the empty collection included, the selection fails with the error
  \<^verbatim>\<open>No published episodes found\<close> and with no other.\<close>

theorem no_published_error:
  assumes "\<forall>ep\<in>set episodes. published_state ep \<noteq> ''PUBLISHED''"
  shows "selectLatest env episodes = Inl (Error ''No published episodes found'') \<and>
         selectEpisode env episodes = Inl (Error ''No published episodes found'')"
proof -
  have "filter (\<lambda>ep. published_state ep = ''PUBLISHED'') episodes = []"
    using assms by (simp add: filter_empty_conv)
  then have "selectLatest env episodes = Inl (Error ''No published episodes found'')"
    by (simp add: selectLatest_def)
  then show ?thesis by (simp add: selectEpisode_def)
qed

theorem no_published_error_witness:
  "selectLatest scenario_env draft_episodes = Inl (Error ''No published episodes found'') \<and>
   selectEpisode scenario_env draft_episodes = Inl (Error ''No published episodes found'') \<and>
   selectLatest scenario_env [] = Inl (Error ''No published episodes found'') \<and>
   selectEpisode scenario_env [] = Inl (Error ''No published episodes found'')"
proof -
  have h: "\<forall>ep\<in>set draft_episodes. published_state ep \<noteq> ''PUBLISHED''"
    by (simp add: draft_episodes_def)
  have h0: "\<forall>ep\<in>set ([] :: raw_episode list). published_state ep \<noteq> ''PUBLISHED''"
    by simp
  show ?thesis
    using no_published_error [OF h, of scenario_env] no_published_error [OF h0, of scenario_env]
    by simp
qed

subsection \<open>Refresh\<close>




subsection \<open>Storage failures\<close>



subsection \<open>What the selection depends on\<close>

text \<open>Claim C8, as amended. On the same raw collection and under the same \<^verbatim>\<open>Date\<close>
  runtime, two runs of the selection fail with the same error or return episodes equal
  in title, date, episode number, page URL and audio URL. The field \<^verbatim>\<open>fetchedAt\<close> is
  the reading of \<^verbatim>\<open>Date.now()\<close> taken by each run, so the two episodes are equal in
  every field when the two readings are equal.\<close>

theorem select_equal_up_to_clock:
  assumes "date_value e1 = date_value e2" and "month_long e1 = month_long e2"
    and "getDate e1 = getDate e2" and "getFullYear e1 = getFullYear e2"
  shows "(case (selectEpisode e1 eps, selectEpisode e2 eps) of
            (Inr a, Inr b) \<Rightarrow>
              title a = title b \<and> date a = date b \<and> episodeNumber a = episodeNumber b \<and>
              diggUrl a = diggUrl b \<and> audioUrl a = audioUrl b \<and>
              fetchedAt a = now_stamp e1 \<and> fetchedAt b = now_stamp e2
          | (Inl x, Inl y) \<Rightarrow> x = y
          | _ \<Rightarrow> False) \<and>
         (now_stamp e1 = now_stamp e2 \<longrightarrow> selectEpisode e1 eps = selectEpisode e2 eps)"
proof -
  have l: "selectLatest e1 eps = selectLatest e2 eps"
    using assms(1) by (rule selectLatest_dates_only)
  have t: "createTitle e1 d n = createTitle e2 d n" for d n
    using assms by (rule createTitle_runtime_only)
  show ?thesis
    by (cases "selectLatest e2 eps") (simp_all add: selectEpisode_def l buildEpisode_def t)
qed

theorem select_equal_up_to_clock_witness:
  "(case (selectEpisode (scenario_env\<lparr>now_stamp := 1709300000000\<rparr>) scenario_episodes,
          selectEpisode (scenario_env\<lparr>now_stamp := 1709300000001\<rparr>) scenario_episodes) of
      (Inr a, Inr b) \<Rightarrow>
        title a = title b \<and> date a = date b \<and> episodeNumber a = episodeNumber b \<and>
        diggUrl a = diggUrl b \<and> audioUrl a = audioUrl b \<and>
        fetchedAt a = 1709300000000 \<and> fetchedAt b = 1709300000001
    | (Inl x, Inl y) \<Rightarrow> x = y
    | _ \<Rightarrow> False)"
proof -
  let ?e1 = "scenario_env\<lparr>now_stamp := 1709300000000\<rparr>"
  let ?e2 = "scenario_env\<lparr>now_stamp := 1709300000001\<rparr>"
  have h: "date_value ?e1 = date_value ?e2" "month_long ?e1 = month_long ?e2"
    "getDate ?e1 = getDate ?e2" "getFullYear ?e1 = getFullYear ?e2"
    by simp_all
  have n: "now_stamp ?e1 = 1709300000000" "now_stamp ?e2 = 1709300000001"
    by simp_all
  show ?thesis
    using select_equal_up_to_clock [OF h, of scenario_episodes]
    unfolding n by (rule conjunct1)
qed

text \<open>Claim C8 as stated fails: the same collection, selected at two readings of the
  clock one millisecond apart, gives two different episode objects.\<close>

theorem select_reads_clock_counterexample:
  "selectEpisode (scenario_env\<lparr>now_stamp := 1709300000000\<rparr>) scenario_episodes \<noteq>
   selectEpisode (scenario_env\<lparr>now_stamp := 1709300000001\<rparr>) scenario_episodes"
proof -
  have "selectLatest (scenario_env\<lparr>now_stamp := t\<rparr>) scenario_episodes =
      Inr (scenario_episodes ! 1)" for t
    using selectLatest_scenario
    by (simp add: selectLatest_dates_only [of "scenario_env\<lparr>now_stamp := t\<rparr>" scenario_env])
  then show ?thesis
    by (simp add: selectEpisode_def buildEpisode_def)
qed

section \<open>Properties of the content script\<close>

subsection \<open>Adding a class changes class lists only\<close>

lemma highlightLink_target:
  "highlightLink doc link =
     (case link_target doc link of
        None \<Rightarrow> doc
      | Some c \<Rightarrow>
          if classList_contains doc c ''digg-daily-official'' then doc
          else classList_add doc c ''digg-daily-official'')"
  by (simp add: highlightLink_def link_target_def Let_def split: option.splits)

lemma add_token_fields [simp]:
  "tagName (add_token c e) = tagName e"
  "elemId (add_token c e) = elemId e"
  "href (add_token c e) = href e"
  "children (add_token c e) = children e"
  "classList (add_token c e) = (if c \<in> set (classList e) then classList e else classList e @ [c])"
  by (cases e; simp)+

lemma update_at_fields:
  "tagName (update_at (add_token c) q e) = tagName e"
  "elemId (update_at (add_token c) q e) = elemId e"
  "href (update_at (add_token c) q e) = href e"
  "length (children (update_at (add_token c) q e)) = length (children e)"
  by (cases q; cases e; simp)+

lemma update_at_classList_below:
  "classList (update_at (add_token c) (k # q) e) = classList e"
  by (cases e) simp

lemma get_node_update_at:
  "get_node (update_at (add_token c) q d) p =
     map_option (\<lambda>e. if prefix p q then update_at (add_token c) (drop (length p) q) e else e)
       (get_node d p)"
proof (induction "add_token c" q d arbitrary: p rule: update_at.induct)
  case (1 e)
  then show ?case by (cases p) (simp_all add: option.map_ident)
next
  case (2 k q t i h cs ch)
  show ?case
  proof (cases p)
    case Nil
    then show ?thesis by simp
  next
    case (Cons j p')
    show ?thesis
    proof (cases "k < length ch")
      case True
      then show ?thesis using 2 unfolding Cons
        by (cases "j = k") (simp_all add: option.map_ident cong: if_cong)
    next
      case False
      then show ?thesis unfolding Cons
        by (cases "j = k") (simp_all add: option.map_ident)
    qed
  qed
qed

lemma tag_at_classList_add:
  "map_option tagName (get_node (classList_add d q c) p) = map_option tagName (get_node d p)"
  by (cases "get_node d p") (simp_all add: classList_add_def get_node_update_at update_at_fields)

lemma href_at_classList_add:
  "getAttribute_href (classList_add d q c) p = getAttribute_href d p"
  by (simp add: getAttribute_href_def classList_add_def get_node_update_at update_at_fields
      split: option.splits)

lemma classList_contains_add:
  "classList_contains (classList_add d q c) p c' =
     (classList_contains d p c' \<or> (p = q \<and> c' = c \<and> get_node d q \<noteq> None))"
proof (cases "get_node d p")
  case None
  then show ?thesis
    by (auto simp add: classList_contains_def classList_add_def get_node_update_at)
next
  case (Some e)
  show ?thesis
  proof (cases "p = q")
    case True
    with Some show ?thesis
      by (auto simp add: classList_contains_def classList_add_def get_node_update_at)
  next
    case False
    show ?thesis
    proof (cases "prefix p q")
      case True
      with False obtain k r where "drop (length p) q = k # r"
        by (metis append_eq_conv_conj append_self_conv list.exhaust prefix_def)
      with Some True False show ?thesis
        by (simp add: classList_contains_def classList_add_def get_node_update_at
            update_at_classList_below)
    next
      case False
      with Some \<open>p \<noteq> q\<close> show ?thesis
        by (simp add: classList_contains_def classList_add_def get_node_update_at)
    qed
  qed
qed

text \<open>A selector that does not read class lists selects the same elements afterwards.\<close>

lemma querySelectorAll_from_update:
  assumes "k < length ch" and "querySelectorAll sel x = querySelectorAll sel (ch ! k)"
  shows "querySelectorAll_from sel n (ch[k := x]) = querySelectorAll_from sel n ch"
  using assms
proof (induction ch arbitrary: n k)
  case Nil
  then show ?case by simp
next
  case (Cons a ch)
  then show ?case by (cases k) simp_all
qed

lemma querySelectorAll_update_at:
  assumes "\<And>t i h cs cs' ch ch'. sel (Element t i h cs ch) = sel (Element t i h cs' ch')"
  shows "querySelectorAll sel (update_at (add_token c) q d) = querySelectorAll sel d"
proof (induction "add_token c" q d rule: update_at.induct)
  case (1 e)
  show ?case
  proof (cases e)
    case (Element t i h cs ch)
    then show ?thesis using assms [of t i h "cs @ [c]" ch cs ch] by simp
  qed
next
  case (2 k q t i h cs ch)
  show ?case
  proof (cases "k < length ch")
    case True
    with 2 have "querySelectorAll_from sel 0 (ch[k := update_at (add_token c) q (ch ! k)]) =
        querySelectorAll_from sel 0 ch"
      by (simp add: querySelectorAll_from_update)
    moreover have "sel (Element t i h cs (ch[k := update_at (add_token c) q (ch ! k)])) =
        sel (Element t i h cs ch)"
      by (rule assms)
    ultimately show ?thesis using True by simp
  next
    case False
    then show ?thesis by simp
  qed
qed

lemma links_classList_add:
  "querySelectorAll diggdaily_link (classList_add d q c) = querySelectorAll diggdaily_link d"
  unfolding classList_add_def
  by (rule querySelectorAll_update_at) (simp add: diggdaily_link_def)

lemma closest_classList_add: "closest (classList_add d q c) p tag = closest d p tag"
  by (simp add: closest_def tag_at_classList_add)

lemma link_target_classList_add: "link_target (classList_add d q c) p = link_target d p"
  by (simp only: link_target_def container_of_def closest_classList_add href_at_classList_add)

lemma closest_exists: "closest d p tag = Some c \<Longrightarrow> get_node d c \<noteq> None"
  by (auto simp add: closest_def find_Some_iff)

lemma container_of_exists: "container_of d p = Some c \<Longrightarrow> get_node d c \<noteq> None"
  by (cases "closest d p ''article''") (simp_all add: container_of_def closest_exists)

lemma link_target_exists: "link_target d p = Some c \<Longrightarrow> get_node d c \<noteq> None"
  by (auto simp add: link_target_def Let_def split: if_splits dest: container_of_exists)

subsection \<open>One run of the callback\<close>

lemma links_highlightLink:
  "querySelectorAll diggdaily_link (highlightLink d p) = querySelectorAll diggdaily_link d"
  by (simp add: highlightLink_target links_classList_add split: option.splits)

lemma link_target_highlightLink: "link_target (highlightLink d p) q = link_target d q"
  by (simp add: highlightLink_target link_target_classList_add split: option.splits)

lemma marked_highlightLink:
  "classList_contains (highlightLink d p) q ''digg-daily-official'' =
     (classList_contains d q ''digg-daily-official'' \<or> link_target d p = Some q)"
proof (cases "link_target d p")
  case None
  then show ?thesis by (simp add: highlightLink_target)
next
  case (Some c)
  then have "get_node d c \<noteq> None" by (rule link_target_exists)
  with Some show ?thesis
    by (auto simp add: highlightLink_target classList_contains_add)
qed

lemma highlightLink_skip:
  "link_target d p = None \<Longrightarrow> highlightLink d p = d"
  by (simp add: highlightLink_target)

lemma highlightLink_marked:
  "link_target d p = Some c \<Longrightarrow> classList_contains d c ''digg-daily-official'' \<Longrightarrow>
   highlightLink d p = d"
  by (simp add: highlightLink_target)

subsection \<open>The whole loop\<close>

lemma link_target_foldl: "link_target (foldl highlightLink d ps) q = link_target d q"
  by (induction ps arbitrary: d) (simp_all add: link_target_highlightLink)

lemma links_foldl:
  "querySelectorAll diggdaily_link (foldl highlightLink d ps) = querySelectorAll diggdaily_link d"
  by (induction ps arbitrary: d) (simp_all add: links_highlightLink)

lemma marked_foldl:
  "classList_contains (foldl highlightLink d ps) q ''digg-daily-official'' =
     (classList_contains d q ''digg-daily-official'' \<or> (\<exists>p\<in>set ps. link_target d p = Some q))"
proof (induction ps arbitrary: d)
  case Nil
  then show ?case by simp
next
  case (Cons p ps)
  then show ?case
    by (auto simp add: marked_highlightLink link_target_highlightLink)
qed

lemma foldl_settled:
  assumes "\<forall>p\<in>set ps. \<forall>c. link_target d p = Some c \<longrightarrow>
             classList_contains d c ''digg-daily-official''"
  shows "foldl highlightLink d ps = d"
  using assms
proof (induction ps)
  case Nil
  then show ?case by simp
next
  case (Cons p ps)
  have "highlightLink d p = d"
  proof (cases "link_target d p")
    case None
    then show ?thesis by (rule highlightLink_skip)
  next
    case (Some c)
    with Cons.prems show ?thesis by (simp add: highlightLink_marked)
  qed
  with Cons show ?case by simp
qed

lemma foldl_skip:
  assumes "link_target d p = None"
  shows "foldl highlightLink d ps = foldl highlightLink d (removeAll p ps)"
  using assms
proof (induction ps arbitrary: d)
  case Nil
  then show ?case by simp
next
  case (Cons q ps)
  show ?case
  proof (cases "q = p")
    case True
    with Cons show ?thesis by (simp add: highlightLink_skip)
  next
    case False
    have "link_target (highlightLink d q) p = None"
      using Cons.prems by (simp add: link_target_highlightLink)
    with Cons.IH False show ?thesis by simp
  qed
qed

text \<open>After the pass, the marked elements are those marked before and the containers
  of the official links.\<close>

lemma marked_pass:
  "classList_contains (highlightOfficialPosts d) q ''digg-daily-official'' =
     (classList_contains d q ''digg-daily-official'' \<or>
      (\<exists>p\<in>set (querySelectorAll diggdaily_link d). link_target d p = Some q))"
  by (simp add: highlightOfficialPosts_def marked_foldl)

subsection \<open>The claims about the marking pass\<close>

lemma scenario_links: "querySelectorAll diggdaily_link scenario_doc = [[1, 0, 0], [1, 1, 0]]"
  by (simp add: scenario_doc_def diggdaily_link_def)

lemma scenario_hrefs:
  "getAttribute_href scenario_doc [1, 0, 0] = Some ''/diggdaily/digg-daily-123''"
  "getAttribute_href scenario_doc [1, 1, 0] = Some ''/diggdaily/digg-daily-homemade-5''"
  by (simp_all add: scenario_doc_def getAttribute_href_def)

lemma scenario_containers:
  "container_of scenario_doc [1, 0, 0] = Some [1, 0]"
  "container_of scenario_doc [1, 1, 0] = Some [1, 1]"
  by (simp_all add: scenario_doc_def container_of_def closest_def)

lemma scenario_official:
  "official_href ''/diggdaily/digg-daily-123''"
  "\<not> official_href ''/diggdaily/digg-daily-homemade-5''"
  by (simp_all add: official_href_def)

lemma official_href_Nil: "\<not> official_href []"
  by (simp add: official_href_def)

lemma link_target_Some:
  "link_target doc q = Some c \<longleftrightarrow>
     (\<exists>h. getAttribute_href doc q = Some h \<and> official_href h \<and> container_of doc q = Some c)"
  by (cases "getAttribute_href doc q") (simp_all add: link_target_def official_href_Nil)

text \<open>Claim C6. For every document tree, a second run of \<^verbatim>\<open>highlightOfficialPosts\<close>
  on the tree the first run left changes nothing: the tree, and with it the list of
  marked nodes, is the one the first run produced.\<close>

theorem highlight_idempotent:
  "highlightOfficialPosts (highlightOfficialPosts doc) = highlightOfficialPosts doc \<and>
   marked_nodes (highlightOfficialPosts (highlightOfficialPosts doc)) =
     marked_nodes (highlightOfficialPosts doc)"
proof -
  let ?ps = "querySelectorAll diggdaily_link doc"
  let ?d = "highlightOfficialPosts doc"
  have links: "querySelectorAll diggdaily_link ?d = ?ps"
    by (simp add: highlightOfficialPosts_def links_foldl)
  have "\<forall>p\<in>set ?ps. \<forall>c. link_target ?d p = Some c \<longrightarrow>
      classList_contains ?d c ''digg-daily-official''"
    by (auto simp add: highlightOfficialPosts_def link_target_foldl marked_foldl)
  then have "foldl highlightLink ?d ?ps = ?d" by (rule foldl_settled)
  then have "highlightOfficialPosts ?d = ?d"
    using links by (simp add: highlightOfficialPosts_def [of ?d])
  then show ?thesis by simp
qed

theorem highlight_idempotent_witness:
  "marked_nodes (highlightOfficialPosts scenario_doc) = [[1, 0]] \<and>
   marked_nodes (highlightOfficialPosts (highlightOfficialPosts scenario_doc)) = [[1, 0]]"
proof -
  have "marked_nodes (highlightOfficialPosts scenario_doc) = [[1, 0]]"
    by (simp add: marked_nodes_def highlightOfficialPosts_def highlightLink_def scenario_doc_def
        diggdaily_link_def getAttribute_href_def official_href_def container_of_def closest_def
        classList_contains_def classList_add_def)
  then show ?thesis using highlight_idempotent [of scenario_doc] by simp
qed

text \<open>Claim C7. Take a link the selector of line 37 finds (its \<^verbatim>\<open>href\<close> contains
  \<^verbatim>\<open>/diggdaily/\<close>) and that has an enclosing \<^verbatim>\<open>article\<close> or \<^verbatim>\<open>div\<close>. If its
  \<^verbatim>\<open>href\<close> contains \<^verbatim>\<open>/digg-daily-\<close> and neither \<^verbatim>\<open>homemade\<close> nor
  \<^verbatim>\<open>recap\<close>, its container carries the class after the pass. If not, the callback
  leaves the tree as it is for this link, and its container carries the class after the
  pass only if it carried it before or is also the container of another link that
  passes the test.\<close>

theorem official_links_marked:
  assumes "link \<in> set (querySelectorAll diggdaily_link doc)"
    and "getAttribute_href doc link = Some h"
    and "container_of doc link = Some c"
  shows "(str_includes h ''/digg-daily-'' \<and> \<not> str_includes h ''homemade'' \<and> \<not> str_includes h ''recap'' \<longrightarrow>
            classList_contains (highlightOfficialPosts doc) c ''digg-daily-official'') \<and>
         (\<not> (str_includes h ''/digg-daily-'' \<and> \<not> str_includes h ''homemade'' \<and> \<not> str_includes h ''recap'') \<longrightarrow>
            highlightLink doc link = doc \<and>
            (classList_contains (highlightOfficialPosts doc) c ''digg-daily-official'' \<longrightarrow>
               classList_contains doc c ''digg-daily-official'' \<or>
               (\<exists>q\<in>set (querySelectorAll diggdaily_link doc). q \<noteq> link \<and>
                  (\<exists>h'. getAttribute_href doc q = Some h' \<and> official_href h' \<and>
                     container_of doc q = Some c))))"
proof (cases "official_href h")
  case True
  then have "link_target doc link = Some c"
    using assms by (simp add: link_target_Some)
  then have "classList_contains (highlightOfficialPosts doc) c ''digg-daily-official''"
    using assms(1) by (auto simp add: marked_pass)
  with True show ?thesis by (simp add: official_href_def)
next
  case False
  then have n: "link_target doc link = None"
    using assms(2) by (simp add: link_target_def)
  then have "highlightLink doc link = doc" by (rule highlightLink_skip)
  moreover have "classList_contains doc c ''digg-daily-official'' \<or>
      (\<exists>q\<in>set (querySelectorAll diggdaily_link doc). q \<noteq> link \<and>
         (\<exists>h'. getAttribute_href doc q = Some h' \<and> official_href h' \<and>
            container_of doc q = Some c))"
    if "classList_contains (highlightOfficialPosts doc) c ''digg-daily-official''"
  proof -
    from that consider "classList_contains doc c ''digg-daily-official''"
      | q where "q \<in> set (querySelectorAll diggdaily_link doc)" "link_target doc q = Some c"
      by (auto simp add: marked_pass)
    then show ?thesis
    proof cases
      case 1
      then show ?thesis by simp
    next
      case 2
      with n have "q \<noteq> link" by auto
      with 2 show ?thesis by (auto simp add: link_target_Some)
    qed
  qed
  ultimately show ?thesis using False by (auto simp add: official_href_def)
qed

theorem official_links_marked_witness:
  "classList_contains (highlightOfficialPosts scenario_doc) [1, 0] ''digg-daily-official'' \<and>
   \<not> classList_contains (highlightOfficialPosts scenario_doc) [1, 1] ''digg-daily-official'' \<and>
   highlightLink scenario_doc [1, 1, 0] = scenario_doc"
proof -
  have l: "[1, 0, 0] \<in> set (querySelectorAll diggdaily_link scenario_doc)"
    "[1, 1, 0] \<in> set (querySelectorAll diggdaily_link scenario_doc)"
    by (simp_all add: scenario_links)
  have a: "classList_contains (highlightOfficialPosts scenario_doc) [1, 0] ''digg-daily-official''"
    using official_links_marked [OF l(1) scenario_hrefs(1) scenario_containers(1)]
      scenario_official by (simp add: official_href_def)
  have u: "\<not> classList_contains scenario_doc [1, 1] ''digg-daily-official''"
    by (simp add: scenario_doc_def classList_contains_def)
  have n: "\<not> (\<exists>q\<in>set (querySelectorAll diggdaily_link scenario_doc). q \<noteq> [1, 1, 0] \<and>
      (\<exists>h'. getAttribute_href scenario_doc q = Some h' \<and> official_href h' \<and>
         container_of scenario_doc q = Some [1, 1]))"
    by (simp add: scenario_links scenario_containers del: One_nat_def)
  have b: "highlightLink scenario_doc [1, 1, 0] = scenario_doc \<and>
      \<not> classList_contains (highlightOfficialPosts scenario_doc) [1, 1] ''digg-daily-official''"
    using official_links_marked [OF l(2) scenario_hrefs(2) scenario_containers(2)]
      scenario_official(2) u n
    unfolding official_href_def by blast
  from a b show ?thesis by simp
qed

text \<open>Claim C10. A link that passes the test but has no \<^verbatim>\<open>article\<close> and no
  \<^verbatim>\<open>div\<close> among itself and its ancestors is skipped: the callback returns the tree
  unchanged for it, at the start and at every later point of the loop, and the pass
  gives the tree it gives when the link is left out of the loop. The pass is a total
  function of the tree: the null container is a branch of the callback, not a
  failure.\<close>

theorem official_link_without_container_skipped:
  assumes "link \<in> set (querySelectorAll diggdaily_link doc)"
    and "getAttribute_href doc link = Some h" and "official_href h"
    and "closest doc link ''article'' = None" and "closest doc link ''div'' = None"
  shows "highlightLink doc link = doc \<and>
         (\<forall>ps. highlightLink (foldl highlightLink doc ps) link = foldl highlightLink doc ps) \<and>
         highlightOfficialPosts doc =
           foldl highlightLink doc (removeAll link (querySelectorAll diggdaily_link doc))"
proof -
  have n: "link_target doc link = None"
    using assms by (simp add: link_target_def container_of_def)
  then have "link_target (foldl highlightLink doc ps) link = None" for ps
    by (simp add: link_target_foldl)
  then have "highlightLink (foldl highlightLink doc ps) link = foldl highlightLink doc ps" for ps
    by (rule highlightLink_skip)
  moreover have "highlightOfficialPosts doc =
      foldl highlightLink doc (removeAll link (querySelectorAll diggdaily_link doc))"
    unfolding highlightOfficialPosts_def using n by (rule foldl_skip)
  ultimately show ?thesis using n by (simp add: highlightLink_skip)
qed

theorem official_link_without_container_skipped_witness:
  "highlightLink bare_doc [0, 0, 0] = bare_doc \<and>
   highlightOfficialPosts bare_doc = highlightLink bare_doc [0, 1, 0] \<and>
   marked_nodes (highlightOfficialPosts bare_doc) = [[0, 1]]"
proof -
  have l: "querySelectorAll diggdaily_link bare_doc = [[0, 0, 0], [0, 1, 0]]"
    by (simp add: bare_doc_def diggdaily_link_def)
  have h: "getAttribute_href bare_doc [0, 0, 0] = Some ''/diggdaily/digg-daily-124''"
    by (simp add: bare_doc_def getAttribute_href_def)
  have o: "official_href ''/diggdaily/digg-daily-124''"
    by (simp add: official_href_def)
  have c: "closest bare_doc [0, 0, 0] ''article'' = None" "closest bare_doc [0, 0, 0] ''div'' = None"
    by (simp_all add: bare_doc_def closest_def)
  have m: "[0, 0, 0] \<in> set (querySelectorAll diggdaily_link bare_doc)"
    by (simp add: l)
  have s: "highlightLink bare_doc [0, 0, 0] = bare_doc \<and>
      highlightOfficialPosts bare_doc = highlightLink bare_doc [0, 1, 0]"
    using official_link_without_container_skipped [OF m h o c] by (simp add: l)
  have "marked_nodes (highlightLink bare_doc [0, 1, 0]) = [[0, 1]]"
    by (simp add: marked_nodes_def highlightLink_def bare_doc_def getAttribute_href_def
        official_href_def container_of_def closest_def classList_contains_def classList_add_def)
  with s show ?thesis by simp
qed

subsection \<open>The host guard\<close>

text \<open>When the test of line 9 fails the script does nothing, so neither callback exists
  later.\<close>

lemma contentScript_inert:
  assumes "\<not> str_includes (hostname pg) ''digg.com''"
  shows "contentScript pg = (None, pg)"
    and "\<not> dcl_listener pg \<Longrightarrow> on_DOMContentLoaded (snd (contentScript pg)) = (None, pg)"
    and "\<not> observer_installed pg \<Longrightarrow> on_mutation (snd (contentScript pg)) = pg"
  using assms by (simp_all add: contentScript_def on_DOMContentLoaded_def on_mutation_def)

text \<open>Claim C9. The test of line 9 is \<^verbatim>\<open>hostname.includes('digg.com')\<close>, a substring
  test. On the host \<^verbatim>\<open>notdigg.com\<close>, which is not \<^verbatim>\<open>digg.com\<close> and not a subdomain
  of it, the script runs to its end: the button is in the body, the container of the
  official link is marked and the observer is installed.\<close>

theorem host_guard_is_substring_test:
  "''notdigg.com'' \<noteq> ''digg.com'' \<and> \<not> suffix ''.digg.com'' ''notdigg.com'' \<and>
   fst (contentScript foreign_page) = None \<and>
   observer_installed (snd (contentScript foreign_page)) \<and>
   getElementById (doc_tree (snd (contentScript foreign_page))) ''digg-daily-quick-play'' = Some [1, 2] \<and>
   marked_nodes (doc_tree (snd (contentScript foreign_page))) = [[1, 0]]"
  by (simp add: suffix_to_prefix contentScript_def foreign_page_def button_and_highlight_def
      addQuickPlayButton_def getElementById_def document_body_def appendChild_def
      quick_play_button_def scenario_doc_def marked_nodes_def highlightOfficialPosts_def
      highlightLink_def diggdaily_link_def getAttribute_href_def official_href_def
      container_of_def closest_def classList_contains_def classList_add_def)

end
